theory Spec2Isabelle
  imports Complex_Main "HOL-Library.Word"
begin

section \<open>Stress analysis backend (backend/main.py)\<close>

text \<open>
  The embedding follows \<^verbatim>\<open>backend/main.py\<close>. Conventions:
  \<^item> a sample, a frequency and a power are \<open>real\<close>: a finite float64 is read as the
    real number it denotes, and rounding of the arithmetic is not modelled; the one
    non-finite value the code itself introduces, \<^verbatim>\<open>np.nan\<close>, is the constructor
    \<open>NaN\<close> of the type \<open>fl\<close>;
  \<^item> the functions of numpy, scipy, PyEMD, requests and of Python's runtime that the
    code calls (Welch's periodogram, CEEMDAN, the Hilbert phase, \<^verbatim>\<open>hash\<close>, the seeded
    random generators, the HTTP request, \<^verbatim>\<open>float\<close> of a string) are not code of this
    repository: they are the fields of the record \<open>externals\<close>, passed to every function
    that calls them;
  \<^item> an exception is a value: \<open>Inl\<close> of a sum, or \<open>None\<close> where the code catches every
    exception alike;
  \<^item> the two cache files are explicit state, passed in and returned.
\<close>

subsection \<open>Floats with the not-a-number sentinel\<close>

datatype fl = Num real | NaN

text \<open>\<^verbatim>\<open>a > b\<close> on floats: false as soon as one side is nan.\<close>

fun fl_gt :: "fl \<Rightarrow> fl \<Rightarrow> bool" where
  "fl_gt (Num a) (Num b) = (b < a)"
| "fl_gt _ _ = False"

fun isnan :: "fl \<Rightarrow> bool" where
  "isnan NaN = True"
| "isnan (Num _) = False"

text \<open>\<^verbatim>\<open>float(x) if not np.isnan(x) else 0.0\<close>\<close>

fun float_or_zero :: "fl \<Rightarrow> real" where
  "float_or_zero x = (if \<not> isnan x then (case x of Num r \<Rightarrow> r | NaN \<Rightarrow> 0) else 0)"

text \<open>
  Rounding to a number of decimals, ties to the even neighbour: Python's \<^verbatim>\<open>round(x, n)\<close>
  and numpy's \<^verbatim>\<open>np.round(x, n)\<close>.
\<close>

definition round_half_even :: "real \<Rightarrow> int" where
  "round_half_even x =
     (let f = \<lfloor>x\<rfloor>; d = x - of_int f
      in if d < 1 / 2 then f else if 1 / 2 < d then f + 1 else if even f then f else f + 1)"

definition py_round :: "real \<Rightarrow> nat \<Rightarrow> real" where
  "py_round x ndigits = of_int (round_half_even (x * 10 ^ ndigits)) / 10 ^ ndigits"

definition np_round :: "real list \<Rightarrow> nat \<Rightarrow> real list" where
  "np_round xs decimals = map (\<lambda>x. py_round x decimals) xs"

text \<open>\<^verbatim>\<open>str(n)\<close> of a non-negative integer: its decimal digits.\<close>

definition digit_char :: "nat \<Rightarrow> char" where
  "digit_char d = ''0123456789'' ! d"

fun str_nat :: "nat \<Rightarrow> string" where
  "str_nat n = (if n < 10 then [digit_char n] else str_nat (n div 10) @ [digit_char (n mod 10)])"

declare str_nat.simps [simp del]

text \<open>\<^verbatim>\<open>sub in s\<close> on strings.\<close>

fun contains :: "string \<Rightarrow> string \<Rightarrow> bool" where
  "contains sub [] = (sub = [])"
| "contains sub (c # cs) = (take (length sub) (c # cs) = sub \<or> contains sub cs)"

text \<open>\<^verbatim>\<open>a[start:end]\<close> for \<open>0 \<le> start \<le> end\<close>, and \<^verbatim>\<open>a + b\<close> on arrays of one shape.\<close>

definition slice :: "'a list \<Rightarrow> nat \<Rightarrow> nat \<Rightarrow> 'a list" where
  "slice a start stop = drop start (take stop a)"

definition array_add :: "real list \<Rightarrow> real list \<Rightarrow> real list" where
  "array_add a b = map2 (+) a b"

subsection \<open>The data model\<close>

datatype json =
    JNull
  | JBool bool
  | JNum real
  | JStr string
  | JArr "json list"
  | JObj "(string \<times> json) list"

record dataframe =
  HR :: "real list"
  EDA :: "real list"

datatype py_exception = KeyError nat | ValueError

datatype http_exception = HTTPException nat py_exception

text \<open>
  A cache file that exists either unpickles to the dictionary this program wrote
  (\<^verbatim>\<open>{'hash': ..., 'imfs': ...}\<close>) or fails to load.
\<close>

datatype cache_file = Corrupt | Entry "64 word" "real list list"

record cache_files =
  ibi_cache :: "cache_file option"
  scl_cache :: "cache_file option"

record externals =
  welch :: "real list \<Rightarrow> real \<Rightarrow> nat \<Rightarrow> real list \<times> real list"
  ceemdan :: "real list \<Rightarrow> real list list"
  phase_gradient :: "real list \<Rightarrow> real list"
  py_hash :: "real list \<Rightarrow> 64 word"
  py_random :: "nat \<Rightarrow> real"
  requests_get_json :: "string \<Rightarrow> json option"
  parse_float :: "string \<Rightarrow> real option"
  dummy_hr :: "int \<Rightarrow> nat \<Rightarrow> real"
  dummy_eda :: "int \<Rightarrow> nat \<Rightarrow> real"

text \<open>
  The fields of \<open>externals\<close>:
  \<^item> \<open>welch seg fs nperseg\<close> is \<^verbatim>\<open>scipy.signal.welch(seg, fs=fs, nperseg=nperseg)\<close>, the pair
    \<open>(f, Pxx)\<close> of two arrays of one length;
  \<^item> \<open>ceemdan s\<close> is \<^verbatim>\<open>CEEMDAN()(s)\<close> with zero noise width and one trial, after the
    generators were seeded: the rows of a two-dimensional array;
  \<^item> \<open>phase_gradient row\<close> is
    \<^verbatim>\<open>np.gradient(np.unwrap(np.angle(hilbert(row)))) / (2 * np.pi)\<close>;
  \<^item> \<open>py_hash s\<close> is \<^verbatim>\<open>hash(s.tobytes())\<close>, a machine word;
  \<^item> \<open>py_random k\<close> is the \<open>k\<close>-th value of \<^verbatim>\<open>random.random()\<close> after
    \<^verbatim>\<open>random.seed(42)\<close>;
  \<^item> \<open>requests_get_json url\<close> is \<^verbatim>\<open>requests.get(url, timeout=10)\<close>, then
    \<^verbatim>\<open>raise_for_status()\<close> and \<^verbatim>\<open>json()\<close>: \<open>None\<close> when any of the three raises
    (timeout, connection error, HTTP error status, a body that is not JSON);
  \<^item> \<open>parse_float s\<close> is \<^verbatim>\<open>float(s)\<close> of a string, \<open>None\<close> for ValueError;
  \<^item> \<open>dummy_hr minutes i\<close> and \<open>dummy_eda minutes i\<close> are sample \<open>i\<close> of the two
    synthetic series (a sinusoid, seeded random stress episodes and noise, clipped).
\<close>

record minute_result =
  minute :: int
  stress_level :: string
  numeric_label :: int
  oxygen_level :: real
  ibi_lf_hf_ratio :: real
  scl_lf_power :: real

record analysis_response =
  results :: "minute_result list"
  stress_score :: string
  total_minutes :: nat
  stressed_minutes :: nat
  oxygen_levels :: "real list"

record analysis_request =
  minutes :: int
  thingspeak_url :: "string option"
  use_dummy_data :: bool

subsection \<open>perform\_ceemdan\_cached\<close>

text \<open>
  The lookup half: \<open>Some imfs\<close> is the early \<^verbatim>\<open>return cached_data.get('imfs')\<close>, \<open>None\<close>
  is every way to fall through (no file, a file that does not load, another hash). The
  cache is \<open>None\<close> when \<^verbatim>\<open>os.path.exists(cache_file)\<close> is false. Writing the file is taken
  to succeed.
\<close>

fun cache_lookup :: "cache_file option \<Rightarrow> 64 word \<Rightarrow> real list list option" where
  "cache_lookup None signal_hash = None"
| "cache_lookup (Some Corrupt) signal_hash = None"
| "cache_lookup (Some (Entry h imfs)) signal_hash = (if h = signal_hash then Some imfs else None)"

definition perform_ceemdan_cached ::
  "externals \<Rightarrow> real list \<Rightarrow> cache_file option \<Rightarrow> real list list \<times> cache_file option" where
  "perform_ceemdan_cached ext signal cache =
     (let signal_hash = py_hash ext signal in
      case cache_lookup cache signal_hash of
        Some imfs \<Rightarrow> (imfs, cache)
      | None \<Rightarrow>
          (let imfs = map (\<lambda>row. np_round row 6) (ceemdan ext signal)
           in (imfs, Some (Entry signal_hash imfs))))"

subsection \<open>calculate\_power\<close>

text \<open>\<^verbatim>\<open>np.trapz(y, x)\<close>: the sum of \<open>(x[i+1] - x[i]) * (y[i+1] + y[i]) / 2\<close>.\<close>

fun trapz :: "real list \<Rightarrow> real list \<Rightarrow> real" where
  "trapz (y0 # y1 # ys) (x0 # x1 # xs) = (x1 - x0) * (y1 + y0) / 2 + trapz (y1 # ys) (x1 # xs)"
| "trapz ys xs = 0"

text \<open>\<^verbatim>\<open>a[mask]\<close> with a boolean mask of the length of \<open>a\<close>.\<close>

definition select :: "'a list \<Rightarrow> bool list \<Rightarrow> 'a list" where
  "select a keep = map fst (filter snd (zip a keep))"

definition band_mask :: "real list \<Rightarrow> real \<Rightarrow> real \<Rightarrow> bool list" where
  "band_mask f low_freq high_freq = map (\<lambda>x. low_freq \<le> x \<and> x \<le> high_freq) f"

definition calculate_power :: "externals \<Rightarrow> real list \<Rightarrow> real \<Rightarrow> real \<Rightarrow> real \<Rightarrow> real" where
  "calculate_power ext segment fs low_freq high_freq =
     (case welch ext segment fs (length segment) of
        (f, Pxx) \<Rightarrow>
          (let keep = band_mask f low_freq high_freq
           in trapz (select Pxx keep) (select f keep)))"

subsection \<open>compute\_instant\_freq\<close>

text \<open>
  The dictionary \<^verbatim>\<open>inst_freq\<close>: the key \<^verbatim>\<open>f'IMF_{i+1}'\<close> is the number \<open>i + 1\<close>. The
  components are the rows of a two-dimensional array, so the \<^verbatim>\<open>reshape\<close> of a
  one-dimensional one has no counterpart here.
\<close>

definition compute_instant_freq :: "externals \<Rightarrow> real list list \<Rightarrow> (nat \<rightharpoonup> real list)" where
  "compute_instant_freq ext imfs =
     map_of (zip (map Suc [0..<length imfs]) (map (phase_gradient ext) imfs))"

definition getitem :: "(nat \<rightharpoonup> real list) \<Rightarrow> nat \<Rightarrow> py_exception + real list" where
  "getitem d k = (case d k of None \<Rightarrow> Inl (KeyError k) | Some v \<Rightarrow> Inr v)"

subsection \<open>generate\_dummy\_data and fetch\_thingspeak\_data\<close>

text \<open>
  \<^verbatim>\<open>generate_dummy_data(minutes)\<close> builds \<^verbatim>\<open>total_samples = (180 + minutes) * 60\<close> rows.
  \<^verbatim>\<open>np.random.randint(0, total_samples, size=minutes * 2)\<close> raises ValueError for a
  negative size, and no other statement of the function raises for \<open>minutes \<ge> 0\<close>.
\<close>

definition generate_dummy_data :: "externals \<Rightarrow> int \<Rightarrow> py_exception + dataframe" where
  "generate_dummy_data ext mins =
     (let total_samples = (180 + mins) * 60 in
      if mins * 2 < 0 then Inl ValueError
      else Inr \<lparr>HR = map (dummy_hr ext mins) [0..<nat total_samples],
                EDA = map (dummy_eda ext mins) [0..<nat total_samples]\<rparr>)"

text \<open>Python's truth value of a decoded JSON value.\<close>

fun truthy :: "json \<Rightarrow> bool" where
  "truthy JNull = False"
| "truthy (JBool b) = b"
| "truthy (JNum x) = (x \<noteq> 0)"
| "truthy (JStr s) = (s \<noteq> [])"
| "truthy (JArr xs) = (xs \<noteq> [])"
| "truthy (JObj kvs) = (kvs \<noteq> [])"

text \<open>\<^verbatim>\<open>float(v)\<close>; \<open>None\<close> when it raises (ValueError or TypeError).\<close>

fun py_float :: "externals \<Rightarrow> json \<Rightarrow> real option" where
  "py_float ext (JNum x) = Some x"
| "py_float ext (JBool b) = Some (if b then 1 else 0)"
| "py_float ext (JStr s) = parse_float ext s"
| "py_float ext v = None"

text \<open>
  \<^verbatim>\<open>feed.get(key)\<close>: \<open>None\<close> when \<open>feed\<close> is not a dictionary (AttributeError), Python's
  \<^verbatim>\<open>None\<close> (here \<open>JNull\<close>) for a key that is absent. The keys of a decoded object are
  distinct.
\<close>

fun dict_get :: "json \<Rightarrow> string \<Rightarrow> json option" where
  "dict_get (JObj kvs) key = (case map_of kvs key of None \<Rightarrow> Some JNull | Some v \<Rightarrow> Some v)"
| "dict_get v key = None"

text \<open>
  \<^verbatim>\<open>[float(feed.get(key, d)) for feed in feeds if feed.get(key)]\<close>; \<open>None\<close> when an
  element raises.
\<close>

fun collect_field :: "externals \<Rightarrow> string \<Rightarrow> json list \<Rightarrow> real list option" where
  "collect_field ext key [] = Some []"
| "collect_field ext key (feed # feeds) =
     (case dict_get feed key of
        None \<Rightarrow> None
      | Some v \<Rightarrow>
          if truthy v then
            (case py_float ext v of
               None \<Rightarrow> None
             | Some x \<Rightarrow> map_option ((#) x) (collect_field ext key feeds))
          else collect_field ext key feeds)"

text \<open>
  The elements \<^verbatim>\<open>for feed in feeds\<close> runs over: those of a list, the characters of a
  string, the keys of a dictionary; \<open>None\<close> (TypeError) for a value that is not
  iterable.
\<close>

fun iter_items :: "json \<Rightarrow> json list option" where
  "iter_items (JArr xs) = Some xs"
| "iter_items (JStr s) = Some (map (\<lambda>c. JStr [c]) s)"
| "iter_items (JObj kvs) = Some (map (\<lambda>kv. JStr (fst kv)) kvs)"
| "iter_items v = None"

text \<open>
  The body of the \<^verbatim>\<open>try\<close> after \<^verbatim>\<open>response.json()\<close>. \<^verbatim>\<open>'feeds' in data\<close> followed by
  \<^verbatim>\<open>data['feeds']\<close> gets through for a dictionary with that key only: a list or a
  string raises TypeError at the subscript, anything else at \<^verbatim>\<open>in\<close> or at the
  \<^verbatim>\<open>raise ValueError\<close>.
\<close>

definition parse_feeds :: "externals \<Rightarrow> json \<Rightarrow> dataframe option" where
  "parse_feeds ext data =
     (case data of
        JObj kvs \<Rightarrow>
          (case map_of kvs ''feeds'' of
             None \<Rightarrow> None
           | Some feeds \<Rightarrow>
               (case iter_items feeds of
                  None \<Rightarrow> None
                | Some items \<Rightarrow>
                    (case collect_field ext ''field1'' items of
                       None \<Rightarrow> None
                     | Some hr_data \<Rightarrow>
                         (case collect_field ext ''field2'' items of
                            None \<Rightarrow> None
                          | Some eda_data \<Rightarrow>
                              (let min_len = min (length hr_data) (length eda_data)
                               in Some \<lparr>HR = take min_len hr_data,
                                        EDA = take min_len eda_data\<rparr>)))))
      | _ \<Rightarrow> None)"

text \<open>\<open>None\<close> is the \<^verbatim>\<open>return None\<close> of the function, on either of its two paths.\<close>

definition fetch_thingspeak_data :: "externals \<Rightarrow> string \<Rightarrow> dataframe option" where
  "fetch_thingspeak_data ext url =
     (if contains ''dummy-thingspeak'' url \<or> contains ''localhost:8000'' url then None
      else
        (case requests_get_json ext url of
           None \<Rightarrow> None
         | Some data \<Rightarrow> parse_feeds ext data))"

subsection \<open>analyze\_stress: thresholds and the segment loop\<close>

text \<open>
  What the loop body reads: the five frequency series, the two thresholds and
  \<^verbatim>\<open>len(ibi_signal)\<close>.
\<close>

record scope =
  ibi_imf1 :: "real list"
  ibi_imf2 :: "real list"
  ibi_imf3 :: "real list"
  scl_imf2 :: "real list"
  scl_imf3 :: "real list"
  ibi_baseline :: fl
  scl_baseline :: real
  signal_len :: nat

definition fs :: real where
  "fs = 1"

definition segment_length :: nat where
  "segment_length = 60"

definition baseline_duration :: nat where
  "baseline_duration = 180"

text \<open>\<^verbatim>\<open>lf / hf if hf != 0 else np.nan\<close>, written twice in the source (lines 214 and 236).\<close>

definition ratio_or_nan :: "real \<Rightarrow> real \<Rightarrow> fl" where
  "ratio_or_nan lf hf = (if hf \<noteq> 0 then Num (lf / hf) else NaN)"

definition ibi_lf_base :: "externals \<Rightarrow> real list \<Rightarrow> real list \<Rightarrow> real" where
  "ibi_lf_base ext imf2 imf3 =
     calculate_power ext
       (array_add (slice imf2 0 baseline_duration) (slice imf3 0 baseline_duration))
       fs (4 / 100) (1 / 10)"

definition ibi_hf_base :: "externals \<Rightarrow> real list \<Rightarrow> real" where
  "ibi_hf_base ext imf1 =
     calculate_power ext (slice imf1 0 baseline_duration) fs (1 / 10) (4 / 10)"

definition scl_lf_base :: "externals \<Rightarrow> real list \<Rightarrow> real list \<Rightarrow> real" where
  "scl_lf_base ext imf2 imf3 =
     calculate_power ext
       (array_add (slice imf2 0 baseline_duration) (slice imf3 0 baseline_duration))
       fs (4 / 100) (25 / 100)"

text \<open>The quantities of segment \<open>m\<close> (lines 224 to 241).\<close>

definition seg_start :: "nat \<Rightarrow> nat" where
  "seg_start m = baseline_duration + m * segment_length"

definition seg_end :: "nat \<Rightarrow> nat" where
  "seg_end m = seg_start m + segment_length"

definition seg_lf :: "externals \<Rightarrow> scope \<Rightarrow> nat \<Rightarrow> real" where
  "seg_lf ext sc m =
     calculate_power ext
       (array_add (slice (ibi_imf2 sc) (seg_start m) (seg_end m))
                  (slice (ibi_imf3 sc) (seg_start m) (seg_end m)))
       fs (4 / 100) (1 / 10)"

definition seg_hf :: "externals \<Rightarrow> scope \<Rightarrow> nat \<Rightarrow> real" where
  "seg_hf ext sc m =
     calculate_power ext (slice (ibi_imf1 sc) (seg_start m) (seg_end m)) fs (1 / 10) (4 / 10)"

definition seg_ibi_ratio :: "externals \<Rightarrow> scope \<Rightarrow> nat \<Rightarrow> fl" where
  "seg_ibi_ratio ext sc m = ratio_or_nan (seg_lf ext sc m) (seg_hf ext sc m)"

definition seg_scl_lf :: "externals \<Rightarrow> scope \<Rightarrow> nat \<Rightarrow> real" where
  "seg_scl_lf ext sc m =
     calculate_power ext
       (array_add (slice (scl_imf2 sc) (seg_start m) (seg_end m))
                  (slice (scl_imf3 sc) (seg_start m) (seg_end m)))
       fs (4 / 100) (25 / 100)"

definition ibi_flag :: "externals \<Rightarrow> scope \<Rightarrow> nat \<Rightarrow> bool" where
  "ibi_flag ext sc m = fl_gt (seg_ibi_ratio ext sc m) (ibi_baseline sc)"

definition scl_flag :: "externals \<Rightarrow> scope \<Rightarrow> nat \<Rightarrow> bool" where
  "scl_flag ext sc m = (scl_baseline sc < seg_scl_lf ext sc m)"

text \<open>
  \<^verbatim>\<open>random.uniform(a, b)\<close> is \<^verbatim>\<open>a + (b - a) * self.random()\<close>; \<open>k\<close> counts the draws since
  \<^verbatim>\<open>random.seed(42)\<close>.
\<close>

definition uniform :: "externals \<Rightarrow> nat \<Rightarrow> real \<Rightarrow> real \<Rightarrow> real" where
  "uniform ext k a b = a + (b - a) * py_random ext k"

text \<open>The \<^verbatim>\<open>if\<close>/\<^verbatim>\<open>elif\<close>/\<^verbatim>\<open>else\<close> of lines 243 to 251: label, numeric label, oxygen.\<close>

definition classify :: "externals \<Rightarrow> nat \<Rightarrow> bool \<Rightarrow> bool \<Rightarrow> string \<times> int \<times> real" where
  "classify ext k iflag sflag =
     (if iflag \<and> sflag then (''High Stress'', 2, py_round (uniform ext k 94 96) 2)
      else if iflag \<or> sflag then (''Mild Stress'', 1, py_round (uniform ext k 96 98) 2)
      else (''No Stress'', 0, py_round (uniform ext k 98 100) 2))"

definition segment_result :: "externals \<Rightarrow> scope \<Rightarrow> nat \<Rightarrow> nat \<Rightarrow> minute_result" where
  "segment_result ext sc m k =
     (case classify ext k (ibi_flag ext sc m) (scl_flag ext sc m) of
        (stress, num_label, oxygen) \<Rightarrow>
          \<lparr>minute = int m + 1,
           stress_level = stress,
           numeric_label = num_label,
           oxygen_level = oxygen,
           ibi_lf_hf_ratio = float_or_zero (seg_ibi_ratio ext sc m),
           scl_lf_power = seg_scl_lf ext sc m\<rparr>)"

text \<open>
  \<^verbatim>\<open>for m in range(analysis_minutes)\<close> with its \<^verbatim>\<open>break\<close>: \<open>m\<close> is the loop variable, \<open>k\<close>
  the number of random draws made so far, \<open>acc\<close> the list \<^verbatim>\<open>results\<close>.
\<close>

function segment_loop ::
  "externals \<Rightarrow> scope \<Rightarrow> int \<Rightarrow> nat \<Rightarrow> nat \<Rightarrow> minute_result list \<Rightarrow> minute_result list" where
  "segment_loop ext sc analysis_minutes m k acc =
     (if int m < analysis_minutes then
        (if signal_len sc < seg_end m then acc
         else segment_loop ext sc analysis_minutes (Suc m) (Suc k)
                (acc @ [segment_result ext sc m k]))
      else acc)"
  by pat_completeness auto
termination
  by (relation "measure (\<lambda>(ext, sc, n, m, k, acc). nat (n - int m))") auto

declare segment_loop.simps [simp del]

text \<open>Lines 263 to 273. \<^verbatim>\<open>sum(1 for r in results if r.numeric_label > 0)\<close> adds ones.\<close>

definition aggregate :: "minute_result list \<Rightarrow> analysis_response" where
  "aggregate rs =
     (let stressed = sum_list (map (\<lambda>r. 1) (filter (\<lambda>r. 0 < numeric_label r) rs));
          score = str_nat stressed @ ''/'' @ str_nat (length rs)
      in \<lparr>results = rs,
          stress_score = score,
          total_minutes = length rs,
          stressed_minutes = stressed,
          oxygen_levels = map oxygen_level rs\<rparr>)"

text \<open>
  Lines 204 to 273: the five dictionary reads (each a KeyError when the decomposition
  has fewer components), the thresholds, the loop and the summary.
\<close>

definition analysis_minutes_of :: "int \<Rightarrow> nat \<Rightarrow> int" where
  "analysis_minutes_of mins len =
     min mins (int len div int segment_length - int (baseline_duration div segment_length))"

definition make_scope ::
  "externals \<Rightarrow> real list \<Rightarrow> real list \<Rightarrow> real list \<Rightarrow> real list \<Rightarrow> real list \<Rightarrow> nat \<Rightarrow> scope" where
  "make_scope ext i1 i2 i3 s2 s3 len =
     \<lparr>ibi_imf1 = i1, ibi_imf2 = i2, ibi_imf3 = i3, scl_imf2 = s2, scl_imf3 = s3,
      ibi_baseline = ratio_or_nan (ibi_lf_base ext i2 i3) (ibi_hf_base ext i1),
      scl_baseline = scl_lf_base ext s2 s3,
      signal_len = len\<rparr>"

definition run_analysis ::
  "externals \<Rightarrow> (nat \<rightharpoonup> real list) \<Rightarrow> (nat \<rightharpoonup> real list) \<Rightarrow> nat \<Rightarrow> int
     \<Rightarrow> py_exception + analysis_response" where
  "run_analysis ext ibi_freq scl_freq len mins =
     (case getitem ibi_freq 1 of Inl e \<Rightarrow> Inl e | Inr i1 \<Rightarrow>
     (case getitem ibi_freq 2 of Inl e \<Rightarrow> Inl e | Inr i2 \<Rightarrow>
     (case getitem ibi_freq 3 of Inl e \<Rightarrow> Inl e | Inr i3 \<Rightarrow>
     (case getitem scl_freq 2 of Inl e \<Rightarrow> Inl e | Inr s2 \<Rightarrow>
     (case getitem scl_freq 3 of Inl e \<Rightarrow> Inl e | Inr s3 \<Rightarrow>
        Inr (aggregate
               (segment_loop ext (make_scope ext i1 i2 i3 s2 s3 len)
                  (analysis_minutes_of mins len) 0 0 [])))))))"

text \<open>
  Lines 173 to 180: the data the run works on. The handler reads \<^verbatim>\<open>request.thingspeak_url\<close>
  and \<^verbatim>\<open>request.minutes\<close>; \<^verbatim>\<open>if request.thingspeak_url:\<close> is false for \<^verbatim>\<open>None\<close> and for
  the empty string.
\<close>

definition get_data :: "externals \<Rightarrow> analysis_request \<Rightarrow> py_exception + dataframe" where
  "get_data ext request =
     (let df = (case thingspeak_url request of
                  None \<Rightarrow> None
                | Some url \<Rightarrow> if url \<noteq> [] then fetch_thingspeak_data ext url else None)
      in case df of
           None \<Rightarrow> generate_dummy_data ext (minutes request)
         | Some d \<Rightarrow>
             if length (HR d) = 0 then generate_dummy_data ext (minutes request) else Inr d)"

text \<open>
  The handler: any exception inside the \<^verbatim>\<open>try\<close> becomes \<^verbatim>\<open>HTTPException(500)\<close>. The
  second component is the state of the two cache files afterwards. A heart rate of 0
  makes \<^verbatim>\<open>60000 / df['HR']\<close> infinite in pandas; division by zero is 0 in HOL, and no
  property below is about such a sample.
\<close>

definition analyze_stress ::
  "externals \<Rightarrow> cache_files \<Rightarrow> analysis_request
     \<Rightarrow> (http_exception + analysis_response) \<times> cache_files" where
  "analyze_stress ext files request =
     (case get_data ext request of
        Inl e \<Rightarrow> (Inl (HTTPException 500 e), files)
      | Inr df \<Rightarrow>
          (let ibi_signal = np_round (map (\<lambda>hr. 60000 / hr) (HR df)) 6;
               scl_signal = EDA df;
               ibi = perform_ceemdan_cached ext ibi_signal (ibi_cache files);
               scl = perform_ceemdan_cached ext scl_signal (scl_cache files);
               files' = \<lparr>ibi_cache = snd ibi, scl_cache = snd scl\<rparr>
           in (case run_analysis ext (compute_instant_freq ext (fst ibi))
                       (compute_instant_freq ext (fst scl)) (length ibi_signal)
                       (minutes request) of
                 Inl e \<Rightarrow> (Inl (HTTPException 500 e), files')
               | Inr response \<Rightarrow> (Inr response, files'))))"

subsection \<open>Bins as pairs\<close>

text \<open>
  Notions of the proofs only: the bins as pairs of a frequency and a level, the
  trapezoidal sum over such pairs, membership of a bin in a band, and a spectrum that is
  non-negative on ascending frequencies.
\<close>

fun trapz_pairs :: "(real \<times> real) list \<Rightarrow> real" where
  "trapz_pairs ((x0, y0) # (x1, y1) # ps) = (x1 - x0) * (y1 + y0) / 2 + trapz_pairs ((x1, y1) # ps)"
| "trapz_pairs ps = 0"

definition in_band :: "real \<Rightarrow> real \<Rightarrow> real \<times> real \<Rightarrow> bool" where
  "in_band lo hi p = (lo \<le> fst p \<and> fst p \<le> hi)"

definition nonneg_sorted :: "(real \<times> real) list \<Rightarrow> bool" where
  "nonneg_sorted ps = (sorted (map fst ps) \<and> (\<forall>p \<in> set ps. 0 \<le> snd p))"

subsection \<open>Ways the data source fails\<close>




subsection \<open>A small instance to run the definitions on\<close>

text \<open>
  Stand-ins for the library functions, simple enough to compute with: a flat spectrum on
  six frequency bins whose level is the energy of the segment, a decomposition into
  three copies of the signal, the identity for the phase gradient, the length of the
  signal as its hash, the random draws 1/2, 1/3, 1/4 and so on, a data source that is
  down.
\<close>

definition demo_welch :: "real list \<Rightarrow> real \<Rightarrow> nat \<Rightarrow> real list \<times> real list" where
  "demo_welch seg rate nperseg =
     ([0, 1 / 20, 1 / 10, 1 / 5, 2 / 5, 1 / 2], replicate 6 (sum_list (map (\<lambda>x. x * x) seg)))"

definition demo_ext :: externals where
  "demo_ext =
     \<lparr>welch = demo_welch,
      ceemdan = (\<lambda>s. [s, s, s]),
      phase_gradient = (\<lambda>row. row),
      py_hash = (\<lambda>s. of_nat (length s)),
      py_random = (\<lambda>k. 1 / (real k + 2)),
      requests_get_json = (\<lambda>url. None),
      parse_float = (\<lambda>s. None),
      dummy_hr = (\<lambda>mins i. 70),
      dummy_eda = (\<lambda>mins i. 4)\<rparr>"

text \<open>
  Five frequency series of 420 samples: a baseline of 180 and four segments, in which the
  IBI and EDA low-frequency series are raised in turn.
\<close>

definition demo_ibi1 :: "real list" where
  "demo_ibi1 = replicate 420 1"

definition demo_ibi2 :: "real list" where
  "demo_ibi2 = replicate 180 1 @ replicate 60 2 @ replicate 120 0 @ replicate 60 2"

definition demo_scl2 :: "real list" where
  "demo_scl2 = replicate 180 1 @ replicate 120 2 @ replicate 120 0"

definition demo_zero :: "real list" where
  "demo_zero = replicate 420 0"

definition demo_scope :: scope where
  "demo_scope = make_scope demo_ext demo_ibi1 demo_ibi2 demo_zero demo_scl2 demo_zero 420"

text \<open>The same run with a first IBI series that is zero throughout: no high-frequency power.\<close>

definition demo_scope_flat :: scope where
  "demo_scope_flat = make_scope demo_ext demo_zero demo_ibi2 demo_zero demo_scl2 demo_zero 420"

definition demo_freq :: "real list \<Rightarrow> real list \<Rightarrow> real list \<Rightarrow> (nat \<rightharpoonup> real list)" where
  "demo_freq a b c = compute_instant_freq demo_ext [a, b, c]"

text \<open>A signal of 100 samples, shorter than the baseline window.\<close>

definition demo_short :: "real list" where
  "demo_short = replicate 100 1"

text \<open>The response of the demo run when nine minutes are requested.\<close>

definition demo_response :: analysis_response where
  "demo_response = aggregate (segment_loop demo_ext demo_scope (analysis_minutes_of 9 420) 0 0 [])"

text \<open>
  A request that names a channel, and a payload whose feeds carry a temperature and
  neither \<^verbatim>\<open>field1\<close> nor \<^verbatim>\<open>field2\<close>.
\<close>

definition demo_request :: analysis_request where
  "demo_request =
     \<lparr>minutes = 5,
      thingspeak_url = Some ''https://api.thingspeak.com/channels/9/feeds.json'',
      use_dummy_data = False\<rparr>"


text \<open>
  The data source up: a payload of 100 feeds with both fields, which is the page a channel
  returns when no number of results is asked for, and the two strings \<^verbatim>\<open>float\<close> has to
  read.
\<close>

definition demo_feed :: json where
  "demo_feed = JObj [(''created_at'', JStr ''2024-05-01T10:00:00Z''), (''entry_id'', JNum 1),
                     (''field1'', JStr ''72''), (''field2'', JStr ''4.1'')]"

definition demo_feeds :: json where
  "demo_feeds = JObj [(''channel'', JObj [(''id'', JNum 9)]), (''feeds'', JArr (replicate 100 demo_feed))]"

definition demo_ext_up :: externals where
  "demo_ext_up =
     demo_ext\<lparr>requests_get_json := \<lambda>url. Some demo_feeds,
              parse_float := \<lambda>s. if s = ''72'' then Some 72 else if s = ''4.1'' then Some (41 / 10) else None\<rparr>"

section \<open>Properties\<close>

subsection \<open>The segment loop in closed form\<close>

text \<open>
  The loop runs for \<open>m = 0, 1, ...\<close> below both \<^verbatim>\<open>analysis_minutes\<close> and the number of whole
  segments after the baseline, draws once per segment, and appends one record each time.
\<close>

lemma seg_end_le_iff: "seg_end m \<le> L \<longleftrightarrow> m < (L - 180) div 60"
  unfolding seg_end_def seg_start_def baseline_duration_def segment_length_def
  by (auto simp: less_mult_imp_div_less div_less_iff_less_mult)

lemma segment_loop_eq:
  "segment_loop ext sc n m k acc =
     acc @ map (\<lambda>j. segment_result ext sc j (k + j - m))
             [m ..< min (nat n) ((signal_len sc - 180) div 60)]"
proof (induction ext sc n m k acc rule: segment_loop.induct)
  case (1 ext sc n m k acc)
  let ?stop = "min (nat n) ((signal_len sc - 180) div 60)"
  show ?case
  proof (cases "int m < n")
    case False
    then have "?stop \<le> m" by auto
    with False show ?thesis by (subst segment_loop.simps) simp
  next
    case True
    show ?thesis
    proof (cases "signal_len sc < seg_end m")
      case brk: True
      then have "?stop \<le> m" using seg_end_le_iff[of m "signal_len sc"] by auto
      with True brk show ?thesis by (subst segment_loop.simps) simp
    next
      case go: False
      then have lt: "m < ?stop" using True seg_end_le_iff[of m "signal_len sc"] by auto
      have "segment_loop ext sc n m k acc =
              segment_loop ext sc n (Suc m) (Suc k) (acc @ [segment_result ext sc m k])"
        using True go by (subst segment_loop.simps) simp
      also have "\<dots> = (acc @ [segment_result ext sc m k]) @
              map (\<lambda>j. segment_result ext sc j (Suc k + j - Suc m)) [Suc m ..< ?stop]"
        using "1.IH"[OF True go] .
      also have "\<dots> = acc @ map (\<lambda>j. segment_result ext sc j (k + j - m)) [m ..< ?stop]"
        using lt by (simp add: upt_conv_Cons)
      finally show ?thesis .
    qed
  qed
qed

lemma segment_loop_results:
  "segment_loop ext sc n 0 0 [] =
     map (\<lambda>j. segment_result ext sc j j) [0 ..< min (nat n) ((signal_len sc - 180) div 60)]"
  by (simp add: segment_loop_eq)

lemma segment_loop_nth:
  "m < length (segment_loop ext sc n 0 0 []) \<Longrightarrow>
     segment_loop ext sc n 0 0 [] ! m = segment_result ext sc m m"
  by (simp add: segment_loop_results)

lemma nat_avail: "nat (int L div 60 - 3) = (L - 180) div 60"
proof (cases "180 \<le> L")
  case True
  then obtain d where "L = d + 180" using le_Suc_ex add.commute by metis
  then show ?thesis by (simp add: zdiv_int[symmetric] del: zdiv_int)
next
  case False
  then have "L div 60 < 3" by (simp add: div_less_iff_less_mult)
  then have "int L div 60 < 3" by (metis of_nat_less_iff of_nat_numeral zdiv_int)
  with False show ?thesis by simp
qed

lemma analysis_minutes_eq: "analysis_minutes_of mins L = min mins (int L div 60 - 3)"
  unfolding analysis_minutes_of_def baseline_duration_def segment_length_def by simp

lemma run_loop_length:
  "signal_len sc = L \<Longrightarrow>
     length (segment_loop ext sc (analysis_minutes_of mins L) 0 0 []) =
       nat (min mins (int L div 60 - 3))"
proof -
  assume L: "signal_len sc = L"
  have "nat (analysis_minutes_of mins L) \<le> nat (int L div 60 - 3)"
    by (simp add: analysis_minutes_eq)
  then show ?thesis by (simp add: segment_loop_results L nat_avail analysis_minutes_eq)
qed

lemma segment_result_fields:
  "minute (segment_result ext sc m k) = int m + 1"
  "stress_level (segment_result ext sc m k) = fst (classify ext k (ibi_flag ext sc m) (scl_flag ext sc m))"
  "numeric_label (segment_result ext sc m k) = fst (snd (classify ext k (ibi_flag ext sc m) (scl_flag ext sc m)))"
  "oxygen_level (segment_result ext sc m k) = snd (snd (classify ext k (ibi_flag ext sc m) (scl_flag ext sc m)))"
  "ibi_lf_hf_ratio (segment_result ext sc m k) = float_or_zero (seg_ibi_ratio ext sc m)"
  "scl_lf_power (segment_result ext sc m k) = seg_scl_lf ext sc m"
  by (simp_all add: segment_result_def split: prod.splits)

lemma run_analysis_Inr:
  assumes "run_analysis ext ibi_freq scl_freq len mins = Inr response"
  obtains i1 i2 i3 s2 s3 where
    "ibi_freq 1 = Some i1" "ibi_freq 2 = Some i2" "ibi_freq 3 = Some i3"
    "scl_freq 2 = Some s2" "scl_freq 3 = Some s3"
    "response = aggregate (segment_loop ext (make_scope ext i1 i2 i3 s2 s3 len)
                   (analysis_minutes_of mins len) 0 0 [])"
  using assms unfolding run_analysis_def getitem_def
  by (auto split: option.splits sum.splits)

lemma run_analysis_present:
  assumes "ibi_freq 1 = Some i1" "ibi_freq 2 = Some i2" "ibi_freq 3 = Some i3"
    "scl_freq 2 = Some s2" "scl_freq 3 = Some s3"
  shows "run_analysis ext ibi_freq scl_freq len mins =
     Inr (aggregate (segment_loop ext (make_scope ext i1 i2 i3 s2 s3 len)
                   (analysis_minutes_of mins len) 0 0 []))"
  using assms unfolding run_analysis_def getitem_def by simp

lemma aggregate_results: "results (aggregate rs) = rs"
  by (simp add: aggregate_def Let_def)

lemma signal_len_make_scope: "signal_len (make_scope ext i1 i2 i3 s2 s3 len) = len"
  by (simp add: make_scope_def)

subsection \<open>Band power as an integral over the bins in the band\<close>

lemma trapz_as_pairs:
  "length ys = length xs \<Longrightarrow> trapz ys xs = trapz_pairs (zip xs ys)"
  by (induction ys xs rule: trapz.induct) (auto simp: length_Suc_conv Suc_length_conv)

lemma select_band:
  "length P = length f \<Longrightarrow>
     select P (band_mask f lo hi) = map snd (filter (in_band lo hi) (zip f P)) \<and>
     select f (band_mask f lo hi) = map fst (filter (in_band lo hi) (zip f P))"
  by (induction P f rule: list_induct2) (auto simp: select_def band_mask_def in_band_def)

lemma band_power_pairs:
  assumes "length P = length f"
  shows "trapz (select P (band_mask f lo hi)) (select f (band_mask f lo hi)) =
           trapz_pairs (filter (in_band lo hi) (zip f P))"
proof -
  let ?qs = "filter (in_band lo hi) (zip f P)"
  have "trapz (map snd ?qs) (map fst ?qs) = trapz_pairs (zip (map fst ?qs) (map snd ?qs))"
    by (rule trapz_as_pairs) simp
  also have "zip (map fst ?qs) (map snd ?qs) = ?qs" by (simp add: zip_map_fst_snd)
  finally show ?thesis using select_band[OF assms, of lo hi] by simp
qed

lemma trapz_pairs_nonneg: "nonneg_sorted ps \<Longrightarrow> 0 \<le> trapz_pairs ps"
  by (induction ps rule: trapz_pairs.induct) (auto simp: nonneg_sorted_def)

lemma trapz_pairs_tail: "nonneg_sorted (p # ps) \<Longrightarrow> trapz_pairs ps \<le> trapz_pairs (p # ps)"
  by (cases p; cases ps) (auto simp: nonneg_sorted_def)

lemma filter_above_empty:
  "sorted (map fst ps) \<Longrightarrow> ps = q # qs \<Longrightarrow> hi < fst q \<Longrightarrow> filter (in_band lo hi) ps = []"
  by (auto simp: in_band_def filter_empty_conv)

lemma trapz_pairs_filter_le:
  "nonneg_sorted ps \<Longrightarrow> trapz_pairs (filter (in_band lo hi) ps) \<le> trapz_pairs ps"
proof (induction ps)
  case Nil
  then show ?case by simp
next
  case (Cons p ps)
  note whole = Cons.prems
  have ns: "nonneg_sorted ps" using whole by (auto simp: nonneg_sorted_def)
  have ih: "trapz_pairs (filter (in_band lo hi) ps) \<le> trapz_pairs ps" using Cons.IH ns .
  have tl: "trapz_pairs ps \<le> trapz_pairs (p # ps)" using trapz_pairs_tail[OF whole] .
  show ?case
  proof (cases "in_band lo hi p")
    case False
    then show ?thesis using ih tl by simp
  next
    case True
    show ?thesis
    proof (cases ps)
      case Nil
      then show ?thesis using True by simp
    next
      case tail: (Cons q qs)
      show ?thesis
      proof (cases "in_band lo hi q")
        case qin: True
        have "trapz_pairs (filter (in_band lo hi) (p # ps)) =
                trapz_pairs (p # q # filter (in_band lo hi) qs)"
          using True qin tail by simp
        also have "\<dots> = (fst q - fst p) * (snd q + snd p) / 2 + trapz_pairs (q # filter (in_band lo hi) qs)"
          by (cases p; cases q) simp
        also have "\<dots> \<le> (fst q - fst p) * (snd q + snd p) / 2 + trapz_pairs (q # qs)"
          using ih qin tail by simp
        also have "\<dots> = trapz_pairs (p # ps)" using tail by (cases p; cases q) simp
        finally show ?thesis .
      next
        case qout: False
        have "lo \<le> fst q" using True whole tail
          by (auto simp: nonneg_sorted_def in_band_def)
        then have "hi < fst q" using qout by (auto simp: in_band_def)
        then have "filter (in_band lo hi) ps = []"
          using filter_above_empty[of ps q qs hi lo] ns tail by (auto simp: nonneg_sorted_def)
        then have "trapz_pairs (filter (in_band lo hi) (p # ps)) = 0" using True by (cases p) simp
        then show ?thesis using trapz_pairs_nonneg[OF whole] by simp
      qed
    qed
  qed
qed

lemma nonneg_sorted_filter: "nonneg_sorted ps \<Longrightarrow> nonneg_sorted (filter Q ps)"
  by (auto simp: nonneg_sorted_def sorted_wrt_filter sorted_map)

lemma band_filter_nested:
  "{lo..hi} \<subseteq> {lo'..hi'} \<Longrightarrow>
     filter (in_band lo hi) (filter (in_band lo' hi') ps) = filter (in_band lo hi) ps"
proof -
  assume sub: "{lo..hi} \<subseteq> {lo'..hi'}"
  have "in_band lo hi p \<Longrightarrow> in_band lo' hi' p" for p
  proof -
    assume "in_band lo hi p"
    then have "fst p \<in> {lo..hi}" by (simp add: in_band_def)
    then have "fst p \<in> {lo'..hi'}" using sub by blast
    then show ?thesis by (simp add: in_band_def)
  qed
  then show ?thesis by (auto simp: filter_filter intro: filter_cong)
qed

lemma band_power_mono:
  assumes "length P = length f" "sorted f" "\<forall>p \<in> set P. 0 \<le> p" "{lo..hi} \<subseteq> {lo'..hi'}"
  shows "trapz (select P (band_mask f lo hi)) (select f (band_mask f lo hi))
           \<le> trapz (select P (band_mask f lo' hi')) (select f (band_mask f lo' hi'))"
proof -
  have len: "length f = length P" using assms(1) by simp
  have ns: "nonneg_sorted (zip f P)"
    using assms(2,3) len by (auto simp: nonneg_sorted_def dest: set_zip_rightD)
  have "trapz_pairs (filter (in_band lo hi) (filter (in_band lo' hi') (zip f P)))
          \<le> trapz_pairs (filter (in_band lo' hi') (zip f P))"
    by (rule trapz_pairs_filter_le, rule nonneg_sorted_filter, rule ns)
  then show ?thesis
    using band_filter_nested[OF assms(4)] band_power_pairs[OF assms(1)] by simp
qed


lemma trapz_select_nonneg:
  assumes "length P = length f" "sorted f" "\<forall>p \<in> set P. 0 \<le> p"
  shows "0 \<le> trapz (select P (band_mask f lo hi)) (select f (band_mask f lo hi))"
proof -
  have "nonneg_sorted (zip f P)"
    using assms by (auto simp: nonneg_sorted_def dest: set_zip_rightD)
  then have "0 \<le> trapz_pairs (filter (in_band lo hi) (zip f P))"
    by (intro trapz_pairs_nonneg nonneg_sorted_filter)
  then show ?thesis using band_power_pairs[OF assms(1)] by simp
qed

lemma select_none:
  "\<forall>x \<in> set f. \<not> (lo \<le> x \<and> x \<le> hi) \<Longrightarrow> select xs (band_mask f lo hi) = []"
  by (auto simp: select_def band_mask_def filter_empty_conv dest!: set_zip_rightD)

subsection \<open>The cache entry after a call, and hashes that collide\<close>



subsection \<open>What the handler reads of the request, and the fallback\<close>

lemma analyze_stress_reads:
  assumes "get_data ext r1 = get_data ext r2" and "minutes r1 = minutes r2"
  shows "analyze_stress ext files r1 = analyze_stress ext files r2"
  unfolding analyze_stress_def assms by (rule refl)

lemma get_data_reads:
  assumes "minutes r1 = minutes r2" and "thingspeak_url r1 = thingspeak_url r2"
  shows "get_data ext r1 = get_data ext r2"
  unfolding get_data_def assms by (rule refl)







subsection \<open>The demo instance, evaluated\<close>

lemma demo_power:
  "calculate_power demo_ext seg rate lo hi =
     trapz (select (replicate 6 (sum_list (map (\<lambda>x. x * x) seg)))
              (band_mask [0, 1 / 20, 1 / 10, 1 / 5, 2 / 5, 1 / 2] lo hi))
           (select [0, 1 / 20, 1 / 10, 1 / 5, 2 / 5, 1 / 2]
              (band_mask [0, 1 / 20, 1 / 10, 1 / 5, 2 / 5, 1 / 2] lo hi))"
  by (simp add: calculate_power_def demo_ext_def demo_welch_def Let_def)

lemma replicate_six: "replicate 6 (e::real) = [e, e, e, e, e, e]"
  by (simp add: numeral_eq_Suc)

lemma demo_power_ibi_lf:
  "calculate_power demo_ext seg rate (1 / 25) (1 / 10) = sum_list (map (\<lambda>x. x * x) seg) / 20"
  by (simp add: demo_power replicate_six select_def band_mask_def)

lemma demo_power_ibi_hf:
  "calculate_power demo_ext seg rate (1 / 10) (2 / 5) = 3 * sum_list (map (\<lambda>x. x * x) seg) / 10"
  by (simp add: demo_power replicate_six select_def band_mask_def)

lemma demo_power_scl_lf:
  "calculate_power demo_ext seg rate (1 / 25) (1 / 4) = 3 * sum_list (map (\<lambda>x. x * x) seg) / 20"
  by (simp add: demo_power replicate_six select_def band_mask_def)

lemmas demo_eval =
  seg_lf_def seg_hf_def seg_scl_lf_def seg_ibi_ratio_def ratio_or_nan_def
  ibi_lf_base_def ibi_hf_base_def scl_lf_base_def
  demo_power_ibi_lf demo_power_ibi_hf demo_power_scl_lf
  demo_scope_def demo_scope_flat_def make_scope_def slice_def array_add_def
  seg_start_def seg_end_def baseline_duration_def segment_length_def
  demo_ibi1_def demo_ibi2_def demo_scl2_def demo_zero_def
  zip_replicate sum_list_replicate

lemma demo_thresholds:
  "ibi_baseline demo_scope = Num (1 / 6)" "scl_baseline demo_scope = 27"
  "ibi_baseline demo_scope_flat = NaN" "scl_baseline demo_scope_flat = 27"
  by (simp_all add: demo_eval)

lemma demo_ibi_ratios:
  "seg_ibi_ratio demo_ext demo_scope 0 = Num (2 / 3)"
  "seg_ibi_ratio demo_ext demo_scope (Suc 0) = Num 0"
  "seg_ibi_ratio demo_ext demo_scope 2 = Num 0"
  "seg_ibi_ratio demo_ext demo_scope 3 = Num (2 / 3)"
  by (simp_all add: demo_eval)

lemma demo_scl_powers:
  "seg_scl_lf demo_ext demo_scope 0 = 36"
  "seg_scl_lf demo_ext demo_scope (Suc 0) = 36"
  "seg_scl_lf demo_ext demo_scope 2 = 0"
  "seg_scl_lf demo_ext demo_scope 3 = 0"
  by (simp_all add: demo_eval)

lemma demo_loop_length: "length (segment_loop demo_ext demo_scope 4 0 0 []) = 4"
  by (simp add: segment_loop_results demo_scope_def make_scope_def)

lemma demo_freq_lookup:
  "demo_freq a b c 1 = Some a" "demo_freq a b c 2 = Some b" "demo_freq a b c 3 = Some c"
  by (simp_all add: demo_freq_def compute_instant_freq_def demo_ext_def numeral_eq_Suc upt_rec)

subsection \<open>Comparison with nan, and the fields of a classification\<close>

lemma fl_gt_nan [simp]: "fl_gt x NaN = False" "fl_gt NaN y = False"
  by (cases x) simp_all

lemma classify_fields:
  "fst (classify ext k i s) = (if i \<and> s then ''High Stress'' else if i \<or> s then ''Mild Stress'' else ''No Stress'')"
  "fst (snd (classify ext k i s)) = (if i \<and> s then 2 else if i \<or> s then 1 else 0)"
  "snd (snd (classify ext k i s)) =
     (if i \<and> s then py_round (uniform ext k 94 96) 2
      else if i \<or> s then py_round (uniform ext k 96 98) 2
      else py_round (uniform ext k 98 100) 2)"
  by (simp_all add: classify_def)

subsection \<open>Rounding keeps a value between integer bounds\<close>

lemma round_half_even_bounds:
  assumes "of_int a \<le> x" and "x \<le> of_int b"
  shows "a \<le> round_half_even x \<and> round_half_even x \<le> b"
proof -
  have lo: "a \<le> \<lfloor>x\<rfloor>" using assms(1) by (simp add: le_floor_iff)
  have hi: "\<lfloor>x\<rfloor> \<le> b" using assms(2) by (simp add: floor_le_iff)
  have up: "\<lfloor>x\<rfloor> + 1 \<le> b" if "\<not> x - of_int \<lfloor>x\<rfloor> < 1 / 2"
  proof -
    have "of_int \<lfloor>x\<rfloor> < x" using that by linarith
    then have "of_int \<lfloor>x\<rfloor> < (of_int b :: real)" using assms(2) by linarith
    then have "\<lfloor>x\<rfloor> < b" by simp
    then show ?thesis by simp
  qed
  show ?thesis using lo hi up by (auto simp: round_half_even_def Let_def)
qed

lemma py_round_two_bounds:
  assumes "of_int a \<le> x" and "x \<le> of_int b"
  shows "of_int a \<le> py_round x 2 \<and> py_round x 2 \<le> of_int b
       \<and> (\<exists>c::int. py_round x 2 = of_int c / 100)"
proof -
  have "of_int (a * 100) \<le> x * 100" "x * 100 \<le> of_int (b * 100)" using assms by simp_all
  then have "a * 100 \<le> round_half_even (x * 100) \<and> round_half_even (x * 100) \<le> b * 100"
    by (rule round_half_even_bounds)
  then have "(of_int (a * 100) :: real) \<le> of_int (round_half_even (x * 100))
      \<and> (of_int (round_half_even (x * 100)) :: real) \<le> of_int (b * 100)"
    by (simp only: of_int_le_iff)
  then show ?thesis by (auto simp: py_round_def)
qed

lemma uniform_bounds:
  assumes "0 \<le> py_random ext k" "py_random ext k < 1" "a \<le> b"
  shows "a \<le> uniform ext k a b \<and> uniform ext k a b \<le> b"
proof -
  have "0 \<le> (b - a) * py_random ext k" using assms by simp
  moreover have "(b - a) * py_random ext k \<le> (b - a) * 1"
    using assms by (intro mult_left_mono) simp_all
  ultimately show ?thesis by (simp add: uniform_def)
qed

lemma classify_oxygen:
  assumes "0 \<le> py_random ext k" "py_random ext k < 1"
  shows "(\<exists>c::int. snd (snd (classify ext k i s)) = of_int c / 100)
       \<and> (fst (classify ext k i s) = ''High Stress'' \<longrightarrow>
            94 \<le> snd (snd (classify ext k i s)) \<and> snd (snd (classify ext k i s)) \<le> 96)
       \<and> (fst (classify ext k i s) = ''Mild Stress'' \<longrightarrow>
            96 \<le> snd (snd (classify ext k i s)) \<and> snd (snd (classify ext k i s)) \<le> 98)
       \<and> (fst (classify ext k i s) = ''No Stress'' \<longrightarrow>
            98 \<le> snd (snd (classify ext k i s)) \<and> snd (snd (classify ext k i s)) \<le> 100)"
proof -
  have h: "of_int 94 \<le> uniform ext k 94 96 \<and> uniform ext k 94 96 \<le> of_int 96"
    using uniform_bounds[OF assms, of 94 96] by simp
  have m: "of_int 96 \<le> uniform ext k 96 98 \<and> uniform ext k 96 98 \<le> of_int 98"
    using uniform_bounds[OF assms, of 96 98] by simp
  have n: "of_int 98 \<le> uniform ext k 98 100 \<and> uniform ext k 98 100 \<le> of_int 100"
    using uniform_bounds[OF assms, of 98 100] by simp
  note H = py_round_two_bounds[OF conjunct1[OF h] conjunct2[OF h]]
  note M = py_round_two_bounds[OF conjunct1[OF m] conjunct2[OF m]]
  note N = py_round_two_bounds[OF conjunct1[OF n] conjunct2[OF n]]
  show ?thesis using H M N by (simp add: classify_fields)
qed

lemma demo_flat_hf: "seg_hf demo_ext demo_scope_flat m = 0"
  by (simp add: seg_hf_def demo_power_ibi_hf demo_scope_flat_def make_scope_def slice_def
        demo_zero_def sum_list_replicate)

lemma demo_flat_loop_length: "length (segment_loop demo_ext demo_scope_flat 4 0 0 []) = 4"
  by (simp add: segment_loop_results demo_scope_flat_def make_scope_def)

lemma demo_flat_hf_base: "ibi_hf_base demo_ext demo_zero = 0"
  by (simp add: ibi_hf_base_def demo_power_ibi_hf slice_def demo_zero_def sum_list_replicate)

lemma demo_draws: "0 \<le> py_random demo_ext k \<and> py_random demo_ext k < 1"
  by (simp add: demo_ext_def)

lemma demo_flags:
  "ibi_flag demo_ext demo_scope 0" "scl_flag demo_ext demo_scope 0"
  "\<not> ibi_flag demo_ext demo_scope (Suc 0)" "scl_flag demo_ext demo_scope (Suc 0)"
  "\<not> ibi_flag demo_ext demo_scope 2" "\<not> scl_flag demo_ext demo_scope 2"
  "ibi_flag demo_ext demo_scope 3" "\<not> scl_flag demo_ext demo_scope 3"
  by (simp_all add: ibi_flag_def scl_flag_def demo_thresholds demo_ibi_ratios demo_scl_powers)

lemma upt_four: "[0..<4] = [0, Suc 0, 2, 3]"
  by (simp add: upt_rec)

lemma demo_results:
  "segment_loop demo_ext demo_scope 4 0 0 [] =
     [segment_result demo_ext demo_scope 0 0, segment_result demo_ext demo_scope (Suc 0) (Suc 0),
      segment_result demo_ext demo_scope 2 2, segment_result demo_ext demo_scope 3 3]"
proof -
  have "min (nat 4) ((signal_len demo_scope - 180) div 60) = 4"
    by (simp add: demo_scope_def make_scope_def)
  then show ?thesis by (simp add: segment_loop_results upt_four)
qed
lemma demo_oxygen:
  "py_round (uniform demo_ext 0 94 96) 2 = 95"
  "py_round (uniform demo_ext (Suc 0) 96 98) 2 = 9667 / 100"
  "py_round (uniform demo_ext 2 98 100) 2 = 197 / 2"
  "py_round (uniform demo_ext 3 96 98) 2 = 482 / 5"
  by (simp_all add: py_round_def round_half_even_def uniform_def demo_ext_def Let_def)

subsection \<open>Counting and printing\<close>

lemma count_ones: "sum_list (map (\<lambda>r. Suc 0) xs) = length xs"
  by (induction xs) simp_all

lemma digit_char_value:
  assumes "d < 10"
  shows "of_char (digit_char d) - of_char CHR ''0'' = d"
proof -
  from assms consider "d = 0" | "d = 1" | "d = 2" | "d = 3" | "d = 4"
    | "d = 5" | "d = 6" | "d = 7" | "d = 8" | "d = 9"
    by atomize_elim arith
  then show ?thesis by cases (simp_all add: digit_char_def)
qed

lemma str_nat_value:
  "foldl (\<lambda>a c. 10 * a + (of_char c - of_char CHR ''0'')) 0 (str_nat n) = n"
proof (induction n rule: str_nat.induct)
  case (1 n)
  show ?case
  proof (cases "n < 10")
    case True
    then show ?thesis using digit_char_value[of n] by (subst str_nat.simps) simp
  next
    case False
    have "n mod 10 < 10" by simp
    then show ?thesis
      using False "1.IH" digit_char_value[of "n mod 10"] by (subst str_nat.simps) simp
  qed
qed

lemma demo_response_results:
  "results demo_response =
     [segment_result demo_ext demo_scope 0 0, segment_result demo_ext demo_scope (Suc 0) (Suc 0),
      segment_result demo_ext demo_scope 2 2, segment_result demo_ext demo_scope 3 3]"
  by (simp add: demo_response_def aggregate_results analysis_minutes_eq demo_results)

subsection \<open>A run on a feed of 100 entries\<close>

lemma collect_field_replicate:
  assumes "dict_get feed key = Some v" "truthy v" "py_float ext v = Some x"
  shows "collect_field ext key (replicate n feed) = Some (replicate n x)"
  using assms by (induction n) simp_all

lemma compute_instant_freq_three:
  "compute_instant_freq ext [a, b, c] 1 = Some (phase_gradient ext a)"
  "compute_instant_freq ext [a, b, c] 2 = Some (phase_gradient ext b)"
  "compute_instant_freq ext [a, b, c] 3 = Some (phase_gradient ext c)"
  by (simp_all add: compute_instant_freq_def numeral_eq_Suc upt_rec)

lemma demo_up_data:
  "get_data demo_ext_up demo_request = Inr \<lparr>HR = replicate 100 72, EDA = replicate 100 (41 / 10)\<rparr>"
proof -
  have f1: "collect_field demo_ext_up ''field1'' (replicate 100 demo_feed) = Some (replicate 100 72)"
    by (rule collect_field_replicate[where v = "JStr ''72''"])
       (simp_all add: demo_feed_def demo_ext_up_def demo_ext_def)
  have f2: "collect_field demo_ext_up ''field2'' (replicate 100 demo_feed) = Some (replicate 100 (41 / 10))"
    by (rule collect_field_replicate[where v = "JStr ''4.1''"])
       (simp_all add: demo_feed_def demo_ext_up_def demo_ext_def)
  have p: "parse_feeds demo_ext_up demo_feeds = Some \<lparr>HR = replicate 100 72, EDA = replicate 100 (41 / 10)\<rparr>"
    by (simp add: parse_feeds_def demo_feeds_def f1 f2)
  have u: "\<not> contains ''dummy-thingspeak'' ''https://api.thingspeak.com/channels/9/feeds.json''"
    "\<not> contains ''localhost:8000'' ''https://api.thingspeak.com/channels/9/feeds.json''"
    by simp_all
  have g: "requests_get_json demo_ext_up url = Some demo_feeds" for url
    by (simp add: demo_ext_up_def)
  show ?thesis
    by (simp add: get_data_def demo_request_def fetch_thingspeak_data_def u g p)
qed

lemma demo_up_run:
  "fst (analyze_stress demo_ext_up \<lparr>ibi_cache = None, scl_cache = None\<rparr> demo_request)
     = Inr (aggregate [])"
proof -
  have c: "ceemdan demo_ext_up s = [s, s, s]" for s
    by (simp add: demo_ext_up_def demo_ext_def)
  have am: "analysis_minutes_of 5 100 = - 2" by (simp add: analysis_minutes_eq)
  have loop: "segment_loop demo_ext_up sc (- 2) 0 0 [] = []" for sc
    by (simp add: segment_loop_results)
  have five: "minutes demo_request = 5" by (simp add: demo_request_def)
  have run: "run_analysis demo_ext_up (compute_instant_freq demo_ext_up [a, b, c])
       (compute_instant_freq demo_ext_up [a', b', c']) 100 5 = Inr (aggregate [])" for a b c a' b' c'
    by (simp add: run_analysis_present[OF compute_instant_freq_three(1) compute_instant_freq_three(2)
          compute_instant_freq_three(3) compute_instant_freq_three(2) compute_instant_freq_three(3)]
          am loop)
  show ?thesis
    by (simp add: analyze_stress_def demo_up_data perform_ceemdan_cached_def Let_def c np_round_def
          five run)
qed

section \<open>The claims of the specification\<close>

subsection \<open>C1: the label is a function of the two flags\<close>

text \<open>
  C1. For every segment \<open>m\<close> the loop analyses, the record it appends is labelled from
  the two flags \<^verbatim>\<open>ibi_flag = ibi_ratio > ibi_baseline\<close> and
  \<^verbatim>\<open>scl_flag = scl_lf > scl_baseline\<close> alone: both flags give \<^verbatim>\<open>High Stress\<close> with numeric
  label 2, exactly one flag gives \<^verbatim>\<open>Mild Stress\<close> with numeric label 1, no flag gives
  \<^verbatim>\<open>No Stress\<close> with numeric label 0.
\<close>

theorem stress_label_from_flags:
  assumes "m < length (segment_loop ext sc n 0 0 [])"
  shows "let r = segment_loop ext sc n 0 0 [] ! m;
             iflag = fl_gt (seg_ibi_ratio ext sc m) (ibi_baseline sc);
             sflag = (scl_baseline sc < seg_scl_lf ext sc m)
         in (iflag \<and> sflag \<longrightarrow> stress_level r = ''High Stress'' \<and> numeric_label r = 2)
          \<and> (iflag \<noteq> sflag \<longrightarrow> stress_level r = ''Mild Stress'' \<and> numeric_label r = 1)
          \<and> (\<not> iflag \<and> \<not> sflag \<longrightarrow> stress_level r = ''No Stress'' \<and> numeric_label r = 0)"
  using segment_loop_nth[OF assms]
  by (auto simp: Let_def segment_result_fields classify_def ibi_flag_def scl_flag_def)

text \<open>
  The four segments of the demo run: both flags, the EDA flag alone, no flag, the IBI flag
  alone.
\<close>

theorem stress_label_from_flags_witness:
  "stress_level (segment_loop demo_ext demo_scope 4 0 0 [] ! 0) = ''High Stress''
   \<and> numeric_label (segment_loop demo_ext demo_scope 4 0 0 [] ! 0) = 2
   \<and> stress_level (segment_loop demo_ext demo_scope 4 0 0 [] ! 1) = ''Mild Stress''
   \<and> numeric_label (segment_loop demo_ext demo_scope 4 0 0 [] ! 1) = 1
   \<and> stress_level (segment_loop demo_ext demo_scope 4 0 0 [] ! 2) = ''No Stress''
   \<and> numeric_label (segment_loop demo_ext demo_scope 4 0 0 [] ! 2) = 0
   \<and> stress_level (segment_loop demo_ext demo_scope 4 0 0 [] ! 3) = ''Mild Stress''
   \<and> numeric_label (segment_loop demo_ext demo_scope 4 0 0 [] ! 3) = 1"
proof -
  have l0: "0 < length (segment_loop demo_ext demo_scope 4 0 0 [])"
    and l1: "1 < length (segment_loop demo_ext demo_scope 4 0 0 [])"
    and l2: "2 < length (segment_loop demo_ext demo_scope 4 0 0 [])"
    and l3: "3 < length (segment_loop demo_ext demo_scope 4 0 0 [])"
    by (simp_all add: demo_loop_length)
  show ?thesis
    using stress_label_from_flags[OF l0] stress_label_from_flags[OF l1]
      stress_label_from_flags[OF l2] stress_label_from_flags[OF l3]
    by (simp add: Let_def demo_thresholds demo_ibi_ratios demo_scl_powers)
qed


subsection \<open>C2: how many records, and their minute fields\<close>

text \<open>
  C2 says that the number of records is \<open>min(requested_minutes, floor(L/60) - 3)\<close>. For a
  signal shorter than the baseline that number is negative, \<^verbatim>\<open>range\<close> of a negative number
  is empty, and the run returns no record. A channel that returns 100 feeds, with 5
  minutes requested: the handler returns the summary of the empty list, and the claimed
  count is \<open>-2\<close>. The same on the analysis alone, over three frequency series of 100
  samples.
\<close>

theorem results_count_counterexample:
  "fst (analyze_stress demo_ext_up \<lparr>ibi_cache = None, scl_cache = None\<rparr> demo_request)
     = Inr (aggregate [])
   \<and> minutes demo_request = 5
   \<and> run_analysis demo_ext (demo_freq demo_short demo_short demo_short)
        (demo_freq demo_short demo_short demo_short) 100 5 = Inr (aggregate [])
   \<and> results (aggregate []) = []
   \<and> int (length ([] :: minute_result list)) \<noteq> min 5 (int 100 div 60 - 3)"
proof -
  have "analysis_minutes_of 5 100 = - 2" by (simp add: analysis_minutes_eq)
  then have "segment_loop demo_ext sc (analysis_minutes_of 5 100) 0 0 [] = []" for sc
    by (simp add: segment_loop_results)
  then have run: "run_analysis demo_ext (demo_freq demo_short demo_short demo_short)
        (demo_freq demo_short demo_short demo_short) 100 5 = Inr (aggregate [])"
    by (simp add: run_analysis_present[OF demo_freq_lookup(1) demo_freq_lookup(2)
          demo_freq_lookup(3) demo_freq_lookup(2) demo_freq_lookup(3)])
  have five: "minutes demo_request = 5" by (simp add: demo_request_def)
  have none: "results (aggregate []) = []" by (rule aggregate_results)
  have neg: "int (length ([] :: minute_result list)) \<noteq> min 5 (int 100 div 60 - 3)" by simp
  show ?thesis using demo_up_run five run none neg by (intro conjI)
qed

text \<open>
  C2, amended. For every run that returns, over a signal of length \<open>L\<close>, the number of
  records is \<open>max(0, min(requested_minutes, floor(L/60) - 3))\<close>, and their minute fields are
  \<open>1, 2, ..., len(results)\<close> in this order.
\<close>

theorem results_count_and_minutes:
  assumes "run_analysis ext ibi_freq scl_freq len mins = Inr response"
  shows "int (length (results response)) = max 0 (min mins (int len div 60 - 3))
       \<and> map minute (results response) = map int [1 ..< Suc (length (results response))]"
proof -
  from assms obtain i1 i2 i3 s2 s3 where
    r: "response = aggregate (segment_loop ext (make_scope ext i1 i2 i3 s2 s3 len)
                   (analysis_minutes_of mins len) 0 0 [])"
    by (rule run_analysis_Inr)
  let ?sc = "make_scope ext i1 i2 i3 s2 s3 len"
  let ?rs = "segment_loop ext ?sc (analysis_minutes_of mins len) 0 0 []"
  have res: "results response = ?rs" by (simp add: r aggregate_results)
  have len: "length ?rs = nat (min mins (int len div 60 - 3))"
    by (rule run_loop_length) (rule signal_len_make_scope)
  have "map minute ?rs = map (\<lambda>j. int j + 1) [0 ..< length ?rs]"
    by (simp add: segment_loop_results segment_result_fields)
  also have "\<dots> = map int (map Suc [0 ..< length ?rs])" by simp
  also have "map Suc [0 ..< length ?rs] = [1 ..< Suc (length ?rs)]"
    by (simp add: map_Suc_upt)
  finally have mm: "map minute ?rs = map int [1 ..< Suc (length ?rs)]" .
  have cnt: "int (length ?rs) = max 0 (min mins (int len div 60 - 3))"
    unfolding len by (simp add: max_def)
  show ?thesis unfolding res using cnt mm by (rule conjI)
qed

theorem results_count_and_minutes_witness:
  "run_analysis demo_ext (demo_freq demo_ibi1 demo_ibi2 demo_zero)
      (demo_freq demo_zero demo_scl2 demo_zero) 420 9 = Inr demo_response
   \<and> int (length (results demo_response)) = 4
   \<and> map minute (results demo_response) = [1, 2, 3, 4]"
proof -
  have run: "run_analysis demo_ext (demo_freq demo_ibi1 demo_ibi2 demo_zero)
      (demo_freq demo_zero demo_scl2 demo_zero) 420 9 = Inr demo_response"
    unfolding demo_response_def demo_scope_def
    by (rule run_analysis_present) (rule demo_freq_lookup)+
  have four: "int (length (results demo_response)) = 4"
    using results_count_and_minutes[OF run] by simp
  then have "length (results demo_response) = 4" by simp
  then have "map minute (results demo_response) = [1, 2, 3, 4]"
    using results_count_and_minutes[OF run] by (simp add: upt_rec)
  with run four show ?thesis by simp
qed


subsection \<open>C3: a baseline without high-frequency power\<close>

text \<open>
  C3. If the baseline IBI high-frequency power is exactly zero, the IBI threshold is nan;
  then \<^verbatim>\<open>ibi_ratio > ibi_baseline\<close> is false for every segment, so no record is labelled
  \<^verbatim>\<open>High Stress\<close> (the EDA flag alone gives \<^verbatim>\<open>Mild Stress\<close> at most), and the run returns
  a response: the comparison with nan raises nothing. The five dictionary reads are
  assumed to succeed, which is what a decomposition into three components or more gives.
\<close>

theorem nan_threshold_never_high:
  assumes "ibi_freq 1 = Some i1" "ibi_freq 2 = Some i2" "ibi_freq 3 = Some i3"
      and "scl_freq 2 = Some s2" "scl_freq 3 = Some s3"
      and "ibi_hf_base ext i1 = 0"
  shows "ibi_baseline (make_scope ext i1 i2 i3 s2 s3 len) = NaN
       \<and> (\<forall>m. \<not> ibi_flag ext (make_scope ext i1 i2 i3 s2 s3 len) m)
       \<and> (\<exists>response. run_analysis ext ibi_freq scl_freq len mins = Inr response
             \<and> (\<forall>r \<in> set (results response).
                   stress_level r \<noteq> ''High Stress'' \<and> numeric_label r \<noteq> 2
                   \<and> (numeric_label r = 0 \<or> numeric_label r = 1)))"
proof -
  let ?sc = "make_scope ext i1 i2 i3 s2 s3 len"
  let ?rs = "segment_loop ext ?sc (analysis_minutes_of mins len) 0 0 []"
  have nan: "ibi_baseline ?sc = NaN"
    using assms(6) by (simp add: make_scope_def ratio_or_nan_def)
  have noflag: "\<not> ibi_flag ext ?sc m" for m
    by (simp add: ibi_flag_def nan)
  have run: "run_analysis ext ibi_freq scl_freq len mins = Inr (aggregate ?rs)"
    using assms(1-5) by (rule run_analysis_present)
  have "stress_level r \<noteq> ''High Stress'' \<and> numeric_label r \<noteq> 2
          \<and> (numeric_label r = 0 \<or> numeric_label r = 1)" if "r \<in> set ?rs" for r
  proof -
    from that obtain j where "r = segment_result ext ?sc j j"
      by (auto simp: segment_loop_results)
    then show ?thesis
      by (simp add: segment_result_fields classify_fields noflag)
  qed
  then show ?thesis using nan noflag run by (simp add: aggregate_results)
qed


text \<open>The demo run whose first IBI series is zero throughout.\<close>

theorem nan_threshold_never_high_witness:
  "ibi_hf_base demo_ext demo_zero = 0
   \<and> ibi_baseline demo_scope_flat = NaN
   \<and> (\<forall>m. \<not> ibi_flag demo_ext demo_scope_flat m)
   \<and> (\<exists>response.
         run_analysis demo_ext (demo_freq demo_zero demo_ibi2 demo_zero)
           (demo_freq demo_zero demo_scl2 demo_zero) 420 9 = Inr response
         \<and> (\<forall>r \<in> set (results response).
               stress_level r \<noteq> ''High Stress'' \<and> numeric_label r \<noteq> 2
               \<and> (numeric_label r = 0 \<or> numeric_label r = 1)))"
proof -
  note ibi = demo_freq_lookup[of demo_zero demo_ibi2 demo_zero]
  note scl = demo_freq_lookup[of demo_zero demo_scl2 demo_zero]
  note t = nan_threshold_never_high[OF ibi(1) ibi(2) ibi(3) scl(2) scl(3) demo_flat_hf_base,
      of 420 9]
  have a: "ibi_baseline demo_scope_flat = NaN" unfolding demo_scope_flat_def using t by blast
  have b: "\<forall>m. \<not> ibi_flag demo_ext demo_scope_flat m"
    unfolding demo_scope_flat_def using t by blast
  have c: "\<exists>response.
         run_analysis demo_ext (demo_freq demo_zero demo_ibi2 demo_zero)
           (demo_freq demo_zero demo_scl2 demo_zero) 420 9 = Inr response
         \<and> (\<forall>r \<in> set (results response).
               stress_level r \<noteq> ''High Stress'' \<and> numeric_label r \<noteq> 2
               \<and> (numeric_label r = 0 \<or> numeric_label r = 1))"
    using t by (elim conjE)
  show ?thesis using demo_flat_hf_base a b c by (intro conjI)
qed

subsection \<open>C4: a segment without high-frequency power\<close>

text \<open>
  C4 says that the IBI ratio of such a segment is 0, unlike the threshold of the
  calibration. Line 236 is \<^verbatim>\<open>ibi_ratio = lf / hf if hf != 0 else np.nan\<close>, the expression of
  line 214: the ratio is nan. In the demo run whose first IBI series is zero, the first
  segment has no high-frequency power and its ratio is nan, not 0.
\<close>

theorem zero_hf_segment_ratio_counterexample:
  "seg_hf demo_ext demo_scope_flat 0 = 0
   \<and> seg_ibi_ratio demo_ext demo_scope_flat 0 = NaN
   \<and> seg_ibi_ratio demo_ext demo_scope_flat 0 \<noteq> Num 0"
  by (simp add: demo_flat_hf seg_ibi_ratio_def ratio_or_nan_def)

text \<open>
  C4, amended. For every segment the loop analyses whose IBI high-frequency power is
  exactly zero, the segment's IBI ratio is nan (as the threshold of the calibration is),
  the IBI flag is false, and the field \<^verbatim>\<open>ibi_lf_hf_ratio\<close> of its record is 0.0.
\<close>

theorem zero_hf_segment_ratio:
  assumes "m < length (segment_loop ext sc n 0 0 [])" and "seg_hf ext sc m = 0"
  shows "seg_ibi_ratio ext sc m = NaN
       \<and> \<not> fl_gt (seg_ibi_ratio ext sc m) (ibi_baseline sc)
       \<and> ibi_lf_hf_ratio (segment_loop ext sc n 0 0 [] ! m) = 0"
proof -
  have nan: "seg_ibi_ratio ext sc m = NaN"
    using assms(2) by (simp add: seg_ibi_ratio_def ratio_or_nan_def)
  then show ?thesis
    using segment_loop_nth[OF assms(1)] by (simp add: segment_result_fields)
qed

theorem zero_hf_segment_ratio_witness:
  "seg_hf demo_ext demo_scope_flat 0 = 0
   \<and> seg_ibi_ratio demo_ext demo_scope_flat 0 = NaN
   \<and> \<not> fl_gt (seg_ibi_ratio demo_ext demo_scope_flat 0) (ibi_baseline demo_scope_flat)
   \<and> ibi_lf_hf_ratio (segment_loop demo_ext demo_scope_flat 4 0 0 [] ! 0) = 0"
proof -
  have l0: "0 < length (segment_loop demo_ext demo_scope_flat 4 0 0 [])"
    by (simp add: demo_flat_loop_length)
  show ?thesis using zero_hf_segment_ratio[OF l0 demo_flat_hf] demo_flat_hf by simp
qed

subsection \<open>C5: the oxygen proxy stays within the bounds of its label\<close>

text \<open>
  C5. Provided every draw of \<^verbatim>\<open>random.random()\<close> lies in \<open>[0, 1)\<close>, every record of the run
  has an oxygen level that is a whole number of hundredths and lies in \<open>[94, 96]\<close> when
  the label is \<^verbatim>\<open>High Stress\<close>, in \<open>[96, 98]\<close> when it is \<^verbatim>\<open>Mild Stress\<close>, in \<open>[98, 100]\<close>
  when it is \<^verbatim>\<open>No Stress\<close>.
\<close>

theorem oxygen_within_label_bounds:
  assumes "\<forall>k. 0 \<le> py_random ext k \<and> py_random ext k < 1"
  shows "\<forall>r \<in> set (segment_loop ext sc n 0 0 []).
           (\<exists>c::int. oxygen_level r = of_int c / 100)
         \<and> (stress_level r = ''High Stress'' \<longrightarrow> 94 \<le> oxygen_level r \<and> oxygen_level r \<le> 96)
         \<and> (stress_level r = ''Mild Stress'' \<longrightarrow> 96 \<le> oxygen_level r \<and> oxygen_level r \<le> 98)
         \<and> (stress_level r = ''No Stress'' \<longrightarrow> 98 \<le> oxygen_level r \<and> oxygen_level r \<le> 100)"
proof
  fix r assume "r \<in> set (segment_loop ext sc n 0 0 [])"
  then obtain j where r: "r = segment_result ext sc j j"
    by (auto simp: segment_loop_results)
  have d: "0 \<le> py_random ext j" "py_random ext j < 1" using assms by simp_all
  show "(\<exists>c::int. oxygen_level r = of_int c / 100)
         \<and> (stress_level r = ''High Stress'' \<longrightarrow> 94 \<le> oxygen_level r \<and> oxygen_level r \<le> 96)
         \<and> (stress_level r = ''Mild Stress'' \<longrightarrow> 96 \<le> oxygen_level r \<and> oxygen_level r \<le> 98)
         \<and> (stress_level r = ''No Stress'' \<longrightarrow> 98 \<le> oxygen_level r \<and> oxygen_level r \<le> 100)"
    unfolding r segment_result_fields by (rule classify_oxygen[OF d])
qed


text \<open>
  The second record of the demo run: the draw is 1/3, the label \<^verbatim>\<open>Mild Stress\<close>, the
  oxygen level 96.67.
\<close>

theorem oxygen_within_label_bounds_witness:
  "(\<forall>k. 0 \<le> py_random demo_ext k \<and> py_random demo_ext k < 1)
   \<and> stress_level (segment_result demo_ext demo_scope (Suc 0) (Suc 0)) = ''Mild Stress''
   \<and> oxygen_level (segment_result demo_ext demo_scope (Suc 0) (Suc 0)) = 9667 / 100
   \<and> 96 \<le> oxygen_level (segment_result demo_ext demo_scope (Suc 0) (Suc 0))
   \<and> oxygen_level (segment_result demo_ext demo_scope (Suc 0) (Suc 0)) \<le> 98"
proof -
  have d: "\<forall>k. 0 \<le> py_random demo_ext k \<and> py_random demo_ext k < 1"
    using demo_draws by blast
  have mem: "segment_result demo_ext demo_scope (Suc 0) (Suc 0)
               \<in> set (segment_loop demo_ext demo_scope 4 0 0 [])"
    by (simp add: demo_results)
  have lab: "stress_level (segment_result demo_ext demo_scope (Suc 0) (Suc 0)) = ''Mild Stress''"
    by (simp add: segment_result_fields classify_fields demo_flags)
  have ox: "oxygen_level (segment_result demo_ext demo_scope (Suc 0) (Suc 0)) = 9667 / 100"
    by (simp add: segment_result_fields classify_fields demo_flags demo_oxygen)
  from oxygen_within_label_bounds[OF d, of demo_scope 4] mem lab
  have "96 \<le> oxygen_level (segment_result demo_ext demo_scope (Suc 0) (Suc 0))
      \<and> oxygen_level (segment_result demo_ext demo_scope (Suc 0) (Suc 0)) \<le> 98"
    by blast
  with d lab ox show ?thesis by blast
qed


subsection \<open>C6: the summary\<close>

text \<open>
  C6. For every list of records, the summary has \<^verbatim>\<open>stressed_minutes\<close> the number of
  records whose numeric label is positive, \<^verbatim>\<open>total_minutes\<close> the number of records,
  \<^verbatim>\<open>stress_score\<close> the decimal digits of the first, a slash and the decimal digits of the
  second, and \<^verbatim>\<open>oxygen_levels\<close> the oxygen levels of the records in their order.
\<close>

theorem aggregate_summary:
  "stressed_minutes (aggregate rs) = length (filter (\<lambda>r. 0 < numeric_label r) rs)
   \<and> total_minutes (aggregate rs) = length rs
   \<and> stress_score (aggregate rs) =
       str_nat (stressed_minutes (aggregate rs)) @ ''/'' @ str_nat (total_minutes (aggregate rs))
   \<and> oxygen_levels (aggregate rs) = map oxygen_level (results (aggregate rs))
   \<and> results (aggregate rs) = rs"
  by (simp add: aggregate_def Let_def count_ones)

text \<open>The summary of the demo run: three stressed minutes out of four.\<close>

theorem aggregate_summary_witness:
  "stressed_minutes demo_response = 3
   \<and> total_minutes demo_response = 4
   \<and> stress_score demo_response = ''3/4''
   \<and> oxygen_levels demo_response = [95, 9667 / 100, 197 / 2, 482 / 5]"
proof -
  let ?rs = "segment_loop demo_ext demo_scope (analysis_minutes_of 9 420) 0 0 []"
  note t = aggregate_summary[of ?rs, folded demo_response_def]
  have st: "stressed_minutes demo_response = 3"
    using t by (simp add: analysis_minutes_eq demo_results segment_result_fields classify_fields
        demo_flags)
  have tot: "total_minutes demo_response = 4"
    using t by (simp add: analysis_minutes_eq demo_results)
  have ox: "oxygen_levels demo_response = [95, 9667 / 100, 197 / 2, 482 / 5]"
    using t by (simp add: demo_response_results segment_result_fields classify_fields
        demo_flags demo_oxygen)
  have s3: "str_nat 3 = ''3''" and s4: "str_nat 4 = ''4''"
    by (simp_all add: str_nat.simps digit_char_def)
  have "stress_score demo_response = str_nat 3 @ ''/'' @ str_nat 4"
    using t unfolding st tot by (elim conjE)
  then have sc: "stress_score demo_response = ''3/4''" by (simp add: s3 s4)
  show ?thesis using st tot sc ox by (intro conjI)
qed


subsection \<open>C7: band power grows with the band\<close>

text \<open>
  C7. Let Welch's periodogram of a segment return as many levels as frequencies, the
  frequencies in ascending order and the levels non-negative. Then for every pair of
  bands with \<open>[low, high]\<close> inside \<open>[low', high']\<close> the power over the wider band is at
  least the power over the narrower one, and the power over a band that holds no
  frequency bin is 0.
\<close>

theorem band_power_monotone:
  assumes "welch ext segment rate (length segment) = (f, Pxx)"
      and "length Pxx = length f" and "sorted f" and "\<forall>p \<in> set Pxx. 0 \<le> p"
      and "{low..high} \<subseteq> {low'..high'}"
  shows "calculate_power ext segment rate low high \<le> calculate_power ext segment rate low' high'
       \<and> ((\<forall>x \<in> set f. \<not> (low \<le> x \<and> x \<le> high)) \<longrightarrow>
             calculate_power ext segment rate low high = 0)"
proof -
  have cp: "calculate_power ext segment rate lo hi =
              trapz (select Pxx (band_mask f lo hi)) (select f (band_mask f lo hi))" for lo hi
    using assms(1) by (simp add: calculate_power_def Let_def)
  have mono: "calculate_power ext segment rate low high \<le> calculate_power ext segment rate low' high'"
    unfolding cp using assms(2-5) by (rule band_power_mono)
  have zero: "calculate_power ext segment rate low high = 0"
    if "\<forall>x \<in> set f. \<not> (low \<le> x \<and> x \<le> high)"
    unfolding cp by (simp add: select_none[OF that])
  show ?thesis using mono zero by blast
qed

text \<open>
  On the demo spectrum, of level 5 on the bins 0, 0.05, 0.1, 0.2, 0.4 and 0.5: the band
  \<open>[0.1, 0.2]\<close> inside \<open>[0.04, 0.4]\<close>, and the band \<open>[0.6, 0.7]\<close>, which holds no bin.
\<close>

theorem band_power_monotone_witness:
  "calculate_power demo_ext [1, 2] 1 (1 / 10) (1 / 5) = 1 / 2
   \<and> calculate_power demo_ext [1, 2] 1 (1 / 25) (2 / 5) = 7 / 4
   \<and> calculate_power demo_ext [1, 2] 1 (1 / 10) (1 / 5) \<le> calculate_power demo_ext [1, 2] 1 (1 / 25) (2 / 5)
   \<and> calculate_power demo_ext [1, 2] 1 (3 / 5) (7 / 10) = 0"
proof -
  have w: "welch demo_ext [1, 2] 1 (length [1, 2 :: real]) =
             ([0, 1 / 20, 1 / 10, 1 / 5, 2 / 5, 1 / 2], replicate 6 5)"
    by (simp add: demo_ext_def demo_welch_def)
  have len: "length (replicate 6 (5::real)) = length [0, 1 / 20, 1 / 10, 1 / 5, 2 / 5, 1 / 2 :: real]"
    by simp
  have srt: "sorted [0, 1 / 20, 1 / 10, 1 / 5, 2 / 5, 1 / 2 :: real]" by simp
  have pos: "\<forall>p \<in> set (replicate 6 (5::real)). 0 \<le> p" by simp
  have sub1: "{1 / 10 .. 1 / 5} \<subseteq> {1 / 25 .. 2 / 5 :: real}" by simp
  have sub2: "{3 / 5 .. 7 / 10} \<subseteq> {1 / 25 .. 7 / 10 :: real}" by simp
  have none: "\<forall>x \<in> set [0, 1 / 20, 1 / 10, 1 / 5, 2 / 5, 1 / 2 :: real]. \<not> (3 / 5 \<le> x \<and> x \<le> 7 / 10)"
    by simp
  have a: "calculate_power demo_ext [1, 2] 1 (1 / 10) (1 / 5) = 1 / 2"
    by (simp add: demo_power replicate_six select_def band_mask_def)
  have b: "calculate_power demo_ext [1, 2] 1 (1 / 25) (2 / 5) = 7 / 4"
    by (simp add: demo_power replicate_six select_def band_mask_def)
  have c: "calculate_power demo_ext [1, 2] 1 (1 / 10) (1 / 5) \<le> calculate_power demo_ext [1, 2] 1 (1 / 25) (2 / 5)"
    using band_power_monotone[OF w len srt pos sub1] by blast
  have d: "calculate_power demo_ext [1, 2] 1 (3 / 5) (7 / 10) = 0"
    using band_power_monotone[OF w len srt pos sub2] none by blast
  show ?thesis using a b c d by (intro conjI)
qed


subsection \<open>C8: the decomposition cache\<close>





subsection \<open>C9: a failing data source falls back to synthetic data\<close>



subsection \<open>C10: the flag use\_dummy\_data is never read\<close>

text \<open>
  C10. Two requests with the same minutes and the same locator get the same response and
  leave the cache files in the same state, whatever their flags \<^verbatim>\<open>use_dummy_data\<close> are.
\<close>

theorem use_dummy_data_ignored:
  assumes "minutes r1 = minutes r2" and "thingspeak_url r1 = thingspeak_url r2"
  shows "analyze_stress ext files r1 = analyze_stress ext files r2"
  using get_data_reads[OF assms] assms(1) by (rule analyze_stress_reads)

theorem use_dummy_data_ignored_witness:
  "use_dummy_data \<lparr>minutes = 5, thingspeak_url = None, use_dummy_data = True\<rparr>
     \<noteq> use_dummy_data \<lparr>minutes = 5, thingspeak_url = None, use_dummy_data = False\<rparr>
   \<and> analyze_stress demo_ext \<lparr>ibi_cache = None, scl_cache = None\<rparr>
       \<lparr>minutes = 5, thingspeak_url = None, use_dummy_data = True\<rparr>
     = analyze_stress demo_ext \<lparr>ibi_cache = None, scl_cache = None\<rparr>
       \<lparr>minutes = 5, thingspeak_url = None, use_dummy_data = False\<rparr>"
proof -
  have "analyze_stress demo_ext \<lparr>ibi_cache = None, scl_cache = None\<rparr>
       \<lparr>minutes = 5, thingspeak_url = None, use_dummy_data = True\<rparr>
     = analyze_stress demo_ext \<lparr>ibi_cache = None, scl_cache = None\<rparr>
       \<lparr>minutes = 5, thingspeak_url = None, use_dummy_data = False\<rparr>"
    by (rule use_dummy_data_ignored) simp_all
  then show ?thesis by simp
qed


end
